theory Spec2Isabelle
  imports Main "HOL-Library.Word"
begin

section \<open>The button event handler of the hardware driver\<close>

text \<open>
  A shallow embedding of \<^verbatim>\<open>ButtonEventHandler\<close> (button_event_handler.hpp and
  button_event_handler.cpp) with the enumerations of button_driver_interface.hpp.

  The handler is a class with two flags, two strings and three injected callbacks. Its
  methods are modelled by explicit state passing: a method takes the handler and the
  environment and returns both, updated. The environment is the world outside the
  handler, on which the callbacks act, together with the list of the callback
  invocations made so far, each controller request with the answer it received. That
  list is what the statements about "one call", "no call" and "the id passed" are
  about.

  What the model fixes: calls are sequential (the two atomics are plain booleans), and
  a callback acts on the world only, so it does not call back into the handler while a
  method is running.
\<close>

subsection \<open>Enumerations (button_driver_interface.hpp)\<close>

text \<open>
  \<^verbatim>\<open>enum class ButtonStatus : uint8_t\<close>: the transport may hand over any byte, and the
  \<^verbatim>\<open>default\<close> branch of the dispatch is there for the values without a name.
\<close>

type_synonym ButtonStatus = "8 word"

definition NONE :: ButtonStatus where "NONE = 0"
definition ENTRY_TEACH :: ButtonStatus where "ENTRY_TEACH = 1"
definition EXIT_TEACH :: ButtonStatus where "EXIT_TEACH = 2"
definition TEACH_REPEAT :: ButtonStatus where "TEACH_REPEAT = 3"

text \<open>The handler only ever builds the three named commands.\<close>

datatype ControllerCommand = START_RECORD | STOP_RECORD | START_REPLAY

subsection \<open>The world, the callbacks and their invocations\<close>

text \<open>
  The world is an extensible record: the handler reads one thing of it, the wall clock
  (\<^verbatim>\<open>system_clock::to_time_t(system_clock::now())\<close>, seconds as a signed integer); the
  rest belongs to the callbacks.
\<close>

record world =
  system_clock :: int

type_synonym 'a ControllerSwitchCallback =
  "ControllerCommand \<Rightarrow> string \<Rightarrow> 'a world_scheme \<Rightarrow> bool \<times> 'a world_scheme"

type_synonym 'a ReplayCompleteCallback = "string \<Rightarrow> 'a world_scheme \<Rightarrow> 'a world_scheme"

type_synonym 'a LogCallback = "string \<Rightarrow> 'a world_scheme \<Rightarrow> 'a world_scheme"

datatype invocation =
    LogCall string
  | ControllerSwitchCall ControllerCommand string bool
  | ReplayCompleteCall string

type_synonym 'a env = "'a world_scheme \<times> invocation list"

subsection \<open>The handler (button_event_handler.hpp)\<close>

text \<open>An empty \<^verbatim>\<open>std::function\<close> is \<open>None\<close>.\<close>

record 'a ButtonEventHandler =
  controller_callback :: "'a ControllerSwitchCallback option"
  replay_complete_callback :: "'a ReplayCompleteCallback option"
  log_callback :: "'a LogCallback option"
  is_teaching :: bool
  is_replaying :: bool
  current_trajectory_name :: string
  last_interface :: string

text \<open>The default constructor with the member initialisers of the class.\<close>

definition ButtonEventHandler_new :: "'a ButtonEventHandler" where
  "ButtonEventHandler_new =
     \<lparr>controller_callback = None, replay_complete_callback = None, log_callback = None,
      is_teaching = False, is_replaying = False,
      current_trajectory_name = [], last_interface = []\<rparr>"

text \<open>
  The members carry a trailing underscore in the source, which a name cannot here. The
  selectors of the record are the read accessors of the class: \<^verbatim>\<open>is_teaching()\<close>,
  \<^verbatim>\<open>is_replaying()\<close>, \<^verbatim>\<open>get_current_trajectory_name()\<close> and \<^verbatim>\<open>get_last_interface()\<close>.
\<close>

subsection \<open>Decimal output\<close>

text \<open>
  \<^verbatim>\<open>std::to_string(int)\<close> and \<^verbatim>\<open>operator<<\<close> on an integer: the decimal digits, most
  significant first, after a minus sign for a negative value.
\<close>

definition digit_char :: "nat \<Rightarrow> char" where
  "digit_char d = ''0123456789'' ! d"

fun decimal :: "nat \<Rightarrow> string" where
  "decimal n =
     (if n < 10 then [digit_char n] else decimal (n div 10) @ [digit_char (n mod 10)])"

declare decimal.simps [simp del]

definition to_string :: "int \<Rightarrow> string" where
  "to_string i = (if i < 0 then CHR ''-'' # decimal (nat (- i)) else decimal (nat i))"

subsection \<open>The texts of the log messages\<close>

text \<open>
  The literals of button_event_handler.cpp are UTF-8; their bytes outside ASCII are
  written as numbers, with the meaning of each text beside it.
\<close>

definition txt_event_received :: string where
  \<comment> \<open>received button event: interface=\<close>
  "txt_event_received =
     map char_of [230::nat, 148, 182, 229, 136, 176, 230, 140, 137, 233, 148, 174, 228,
       186, 139, 228, 187, 182] @ '': interface=''"

definition txt_unknown_status :: string where
  \<comment> \<open>unknown button status: \<close>
  "txt_unknown_status =
     map char_of [230::nat, 156, 170, 231, 159, 165, 230, 140, 137, 233, 148, 174, 231,
       138, 182, 230, 128, 129] @ '': ''"

definition txt_replay_complete :: string where
  \<comment> \<open>replay complete: interface=\<close>
  "txt_replay_complete =
     map char_of [229::nat, 164, 141, 231, 142, 176, 229, 174, 140, 230, 136, 144] @ '': interface=''"

definition txt_already_teaching :: string where
  \<comment> \<open>already in teaching mode, repeated entry request ignored\<close>
  "txt_already_teaching =
     map char_of [229::nat, 183, 178, 229, 156, 168, 231, 164, 186, 230, 149, 153, 230,
       168, 161, 229, 188, 143, 228, 184, 173, 239, 188, 140, 229, 191, 189, 231, 149, 165,
       233, 135, 141, 229, 164, 141, 232, 191, 155, 229, 133, 165, 232, 175, 183, 230, 177,
       130]"

definition txt_replaying_cannot_teach :: string where
  \<comment> \<open>replay in progress, cannot enter teaching mode\<close>
  "txt_replaying_cannot_teach =
     map char_of [230::nat, 173, 163, 229, 156, 168, 229, 164, 141, 231, 142, 176, 228,
       184, 173, 239, 188, 140, 230, 151, 160, 230, 179, 149, 232, 191, 155, 229, 133, 165,
       231, 164, 186, 230, 149, 153, 230, 168, 161, 229, 188, 143]"

definition txt_enter_teach :: string where
  \<comment> \<open>entering teaching mode (interface=\<close>
  "txt_enter_teach =
     map char_of [232::nat, 191, 155, 229, 133, 165, 231, 164, 186, 230, 149, 153, 230,
       168, 161, 229, 188, 143] @ '' (interface=''"

definition txt_teach_started :: string where
  \<comment> \<open>teaching started, trajectory name: \<close>
  "txt_teach_started =
     map char_of [231::nat, 164, 186, 230, 149, 153, 229, 188, 128, 229, 167, 139, 239,
       188, 140, 232, 189, 168, 232, 191, 185, 229, 144, 141, 231, 167, 176] @ '': ''"

definition txt_start_teach_failed :: string where
  \<comment> \<open>starting teaching failed\<close>
  "txt_start_teach_failed =
     map char_of [229::nat, 144, 175, 229, 138, 168, 231, 164, 186, 230, 149, 153, 229,
       164, 177, 232, 180, 165]"

definition txt_no_controller_callback :: string where
  \<comment> \<open>no controller switch callback set\<close>
  "txt_no_controller_callback =
     map char_of [230::nat, 156, 170, 232, 174, 190, 231, 189, 174, 230, 142, 167, 229,
       136, 182, 229, 153, 168, 229, 136, 135, 230, 141, 162, 229, 155, 158, 232, 176, 131]"

definition txt_not_teaching :: string where
  \<comment> \<open>not in teaching mode, exit request ignored\<close>
  "txt_not_teaching =
     map char_of [230::nat, 156, 170, 229, 156, 168, 231, 164, 186, 230, 149, 153, 230,
       168, 161, 229, 188, 143, 228, 184, 173, 239, 188, 140, 229, 191, 189, 231, 149, 165,
       233, 128, 128, 229, 135, 186, 232, 175, 183, 230, 177, 130]"

definition txt_exit_teach :: string where
  \<comment> \<open>leaving teaching mode (interface=\<close>
  "txt_exit_teach =
     map char_of [233::nat, 128, 128, 229, 135, 186, 231, 164, 186, 230, 149, 153, 230,
       168, 161, 229, 188, 143] @ '' (interface=''"

definition txt_teach_ended :: string where
  \<comment> \<open>teaching ended, trajectory saved: \<close>
  "txt_teach_ended =
     map char_of [231::nat, 164, 186, 230, 149, 153, 231, 187, 147, 230, 157, 159, 239,
       188, 140, 232, 189, 168, 232, 191, 185, 229, 183, 178, 228, 191, 157, 229, 173, 152] @ '': ''"

definition txt_stop_teach_failed :: string where
  \<comment> \<open>stopping teaching failed\<close>
  "txt_stop_teach_failed =
     map char_of [229::nat, 129, 156, 230, 173, 162, 231, 164, 186, 230, 149, 153, 229,
       164, 177, 232, 180, 165]"

definition txt_teaching_cannot_replay :: string where
  \<comment> \<open>teaching in progress, cannot start replay\<close>
  "txt_teaching_cannot_replay =
     map char_of [230::nat, 173, 163, 229, 156, 168, 231, 164, 186, 230, 149, 153, 228,
       184, 173, 239, 188, 140, 230, 151, 160, 230, 179, 149, 229, 188, 128, 229, 167, 139,
       229, 164, 141, 231, 142, 176]"

definition txt_already_replaying :: string where
  \<comment> \<open>already replaying, repeated request ignored\<close>
  "txt_already_replaying =
     map char_of [229::nat, 183, 178, 229, 156, 168, 229, 164, 141, 231, 142, 176, 228,
       184, 173, 239, 188, 140, 229, 191, 189, 231, 149, 165, 233, 135, 141, 229, 164, 141,
       232, 175, 183, 230, 177, 130]"

definition txt_start_replay :: string where
  \<comment> \<open>starting trajectory replay (interface=\<close>
  "txt_start_replay =
     map char_of [229::nat, 188, 128, 229, 167, 139, 232, 189, 168, 232, 191, 185, 229,
       164, 141, 231, 142, 176] @ '' (interface=''"

definition txt_replay_started :: string where
  \<comment> \<open>replay started: \<close>
  "txt_replay_started =
     map char_of [229::nat, 164, 141, 231, 142, 176, 229, 188, 128, 229, 167, 139] @ '': ''"

definition txt_start_replay_failed :: string where
  \<comment> \<open>starting replay failed\<close>
  "txt_start_replay_failed =
     map char_of [229::nat, 144, 175, 229, 138, 168, 229, 164, 141, 231, 142, 176, 229,
       164, 177, 232, 180, 165]"

subsection \<open>The methods (button_event_handler.cpp)\<close>

definition set_controller_switch_callback ::
  "'a ControllerSwitchCallback option \<Rightarrow> 'a ButtonEventHandler \<Rightarrow> 'a ButtonEventHandler" where
  "set_controller_switch_callback callback h = h\<lparr>controller_callback := callback\<rparr>"

definition set_replay_complete_callback ::
  "'a ReplayCompleteCallback option \<Rightarrow> 'a ButtonEventHandler \<Rightarrow> 'a ButtonEventHandler" where
  "set_replay_complete_callback callback h = h\<lparr>replay_complete_callback := callback\<rparr>"

definition set_log_callback ::
  "'a LogCallback option \<Rightarrow> 'a ButtonEventHandler \<Rightarrow> 'a ButtonEventHandler" where
  "set_log_callback callback h = h\<lparr>log_callback := callback\<rparr>"

definition log :: "'a ButtonEventHandler \<Rightarrow> string \<Rightarrow> 'a env \<Rightarrow> 'a env" where
  "log h message e =
     (case log_callback h of
        Some callback \<Rightarrow>
          (callback (''[ButtonEventHandler] '' @ message) (fst e),
           snd e @ [LogCall (''[ButtonEventHandler] '' @ message)])
      | None \<Rightarrow> e)"

definition generate_trajectory_name :: "'a world_scheme \<Rightarrow> string" where
  "generate_trajectory_name w = ''button_traj_'' @ to_string (system_clock w)"

text \<open>A call of the controller callback: its answer, and the request recorded with it.\<close>

definition request ::
  "'a ControllerSwitchCallback \<Rightarrow> ControllerCommand \<Rightarrow> string \<Rightarrow> 'a env \<Rightarrow> bool \<times> 'a env" where
  "request callback command trajectory_name e =
     (let (ok, w) = callback command trajectory_name (fst e)
      in (ok, (w, snd e @ [ControllerSwitchCall command trajectory_name ok])))"

definition handle_entry_teach ::
  "string \<Rightarrow> 'a ButtonEventHandler \<Rightarrow> 'a env \<Rightarrow> 'a ButtonEventHandler \<times> 'a env" where
  "handle_entry_teach interface h e =
     (if is_teaching h then (h, log h txt_already_teaching e)
      else if is_replaying h then (h, log h txt_replaying_cannot_teach e)
      else
        let e1 = log h (txt_enter_teach @ interface @ '')'') e;
            h1 = h\<lparr>current_trajectory_name := generate_trajectory_name (fst e1)\<rparr>
        in case controller_callback h1 of
             Some callback \<Rightarrow>
               let (ok, e2) = request callback START_RECORD (current_trajectory_name h1) e1
               in if ok
                  then let h2 = h1\<lparr>is_teaching := True\<rparr>
                       in (h2, log h2 (txt_teach_started @ current_trajectory_name h2) e2)
                  else (h1, log h1 txt_start_teach_failed e2)
           | None \<Rightarrow> (h1, log h1 txt_no_controller_callback e1))"

definition handle_exit_teach ::
  "string \<Rightarrow> 'a ButtonEventHandler \<Rightarrow> 'a env \<Rightarrow> 'a ButtonEventHandler \<times> 'a env" where
  "handle_exit_teach interface h e =
     (if \<not> is_teaching h then (h, log h txt_not_teaching e)
      else
        let e1 = log h (txt_exit_teach @ interface @ '')'') e
        in case controller_callback h of
             Some callback \<Rightarrow>
               let (ok, e2) = request callback STOP_RECORD (current_trajectory_name h) e1
               in if ok
                  then let h1 = h\<lparr>is_teaching := False\<rparr>
                       in (h1, log h1 (txt_teach_ended @ current_trajectory_name h1) e2)
                  else (h, log h txt_stop_teach_failed e2)
           | None \<Rightarrow> (h, log h txt_no_controller_callback e1))"

definition handle_teach_repeat ::
  "string \<Rightarrow> 'a ButtonEventHandler \<Rightarrow> 'a env \<Rightarrow> 'a ButtonEventHandler \<times> 'a env" where
  "handle_teach_repeat interface h e =
     (if is_teaching h then (h, log h txt_teaching_cannot_replay e)
      else if is_replaying h then (h, log h txt_already_replaying e)
      else
        let e1 = log h (txt_start_replay @ interface @ '', trajectory=''
                          @ current_trajectory_name h @ '')'') e
        in case controller_callback h of
             Some callback \<Rightarrow>
               let (ok, e2) = request callback START_REPLAY (current_trajectory_name h) e1
               in if ok
                  then let h1 = h\<lparr>is_replaying := True\<rparr>
                       in (h1, log h1 (txt_replay_started @ current_trajectory_name h1) e2)
                  else (h, log h txt_start_replay_failed e2)
           | None \<Rightarrow> (h, log h txt_no_controller_callback e1))"

definition on_button_event ::
  "string \<Rightarrow> ButtonStatus \<Rightarrow> 'a ButtonEventHandler \<Rightarrow> 'a env \<Rightarrow> 'a ButtonEventHandler \<times> 'a env" where
  "on_button_event interface status h e =
     (let e1 = log h (txt_event_received @ interface @ '', status=''
                        @ to_string (uint status)) e;
          h1 = h\<lparr>last_interface := interface\<rparr>
      in if status = ENTRY_TEACH then handle_entry_teach interface h1 e1
         else if status = EXIT_TEACH then handle_exit_teach interface h1 e1
         else if status = TEACH_REPEAT then handle_teach_repeat interface h1 e1
         else (h1, log h1 (txt_unknown_status @ to_string (uint status)) e1))"

definition notify_replay_complete ::
  "string \<Rightarrow> 'a ButtonEventHandler \<Rightarrow> 'a env \<Rightarrow> 'a ButtonEventHandler \<times> 'a env" where
  "notify_replay_complete interface h e =
     (if is_replaying h
      then
        let h1 = h\<lparr>is_replaying := False\<rparr>;
            e1 = log h1 (txt_replay_complete @ interface) e
        in case replay_complete_callback h1 of
             Some callback \<Rightarrow>
               (h1, (callback interface (fst e1), snd e1 @ [ReplayCompleteCall interface]))
           | None \<Rightarrow> (h1, e1)
      else (h, e))"

subsection \<open>Sequences of calls\<close>

text \<open>
  What the owner of a handler can do with it, one call after the other: register a
  callback (an empty one included), deliver a button event, report the end of a replay.
  \<open>Elsewhere\<close> is the rest of the program running between two calls: time passes.
\<close>

datatype 'a call =
    SetControllerSwitchCallback "'a ControllerSwitchCallback option"
  | SetReplayCompleteCallback "'a ReplayCompleteCallback option"
  | SetLogCallback "'a LogCallback option"
  | OnButtonEvent string ButtonStatus
  | NotifyReplayComplete string
  | Elsewhere "'a world_scheme \<Rightarrow> 'a world_scheme"

fun perform ::
  "'a call \<Rightarrow> 'a ButtonEventHandler \<times> 'a env \<Rightarrow> 'a ButtonEventHandler \<times> 'a env" where
  "perform (SetControllerSwitchCallback callback) (h, e) =
     (set_controller_switch_callback callback h, e)"
| "perform (SetReplayCompleteCallback callback) (h, e) =
     (set_replay_complete_callback callback h, e)"
| "perform (SetLogCallback callback) (h, e) = (set_log_callback callback h, e)"
| "perform (OnButtonEvent interface status) (h, e) = on_button_event interface status h e"
| "perform (NotifyReplayComplete interface) (h, e) = notify_replay_complete interface h e"
| "perform (Elsewhere f) (h, e) = (h, (f (fst e), snd e))"

fun run ::
  "'a call list \<Rightarrow> 'a ButtonEventHandler \<times> 'a env \<Rightarrow> 'a ButtonEventHandler \<times> 'a env" where
  "run [] s = s"
| "run (c # cs) s = run cs (perform c s)"

subsection \<open>Reading the list of invocations\<close>

text \<open>The requests made to the controller, in order, each with its answer.\<close>

fun controller_requests :: "invocation list \<Rightarrow> (ControllerCommand \<times> string \<times> bool) list" where
  "controller_requests [] = []"
| "controller_requests (ControllerSwitchCall command trajectory_name ok # tr) =
     (command, trajectory_name, ok) # controller_requests tr"
| "controller_requests (LogCall message # tr) = controller_requests tr"
| "controller_requests (ReplayCompleteCall interface # tr) = controller_requests tr"

text \<open>The completion signals sent out, in order: the interface of each.\<close>

fun replay_complete_signals :: "invocation list \<Rightarrow> string list" where
  "replay_complete_signals [] = []"
| "replay_complete_signals (ReplayCompleteCall interface # tr) =
     interface # replay_complete_signals tr"
| "replay_complete_signals (LogCall message # tr) = replay_complete_signals tr"
| "replay_complete_signals (ControllerSwitchCall command trajectory_name ok # tr) =
     replay_complete_signals tr"

text \<open>
  The trajectory ids of the \<open>START_RECORD\<close> requests that the controller accepted, in
  order; the last one is the id of the latest entry into teaching.
\<close>

definition accepted_starts :: "invocation list \<Rightarrow> string list" where
  "accepted_starts tr =
     map (\<lambda>(command, trajectory_name, ok). trajectory_name)
       (filter (\<lambda>(command, trajectory_name, ok). command = START_RECORD \<and> ok)
         (controller_requests tr))"

text \<open>
  The invariant behind the id of a recording: while the handler is teaching, the
  trajectory name it holds is the id of the latest \<open>START_RECORD\<close> request that the
  controller accepted.
\<close>

definition entry_recorded :: "'a ButtonEventHandler \<times> 'a env \<Rightarrow> bool" where
  "entry_recorded s \<longleftrightarrow>
     (is_teaching (fst s) \<longrightarrow>
        accepted_starts (snd (snd s)) \<noteq> [] \<and>
        last (accepted_starts (snd (snd s))) = current_trajectory_name (fst s))"

text \<open>
  Whether a run, started in state \<open>s\<close>, delivers an \<open>ENTRY_TEACH\<close> event to an idle
  handler. That is when \<open>handle_entry_teach\<close> gets past its two guards and stores a
  generated name, whatever the controller then answers and whether one is registered.
\<close>

fun entry_attempted :: "'a call list \<Rightarrow> 'a ButtonEventHandler \<times> 'a env \<Rightarrow> bool" where
  "entry_attempted [] s = False"
| "entry_attempted (OnButtonEvent interface status # cs) s =
     ((status = ENTRY_TEACH \<and> \<not> is_teaching (fst s) \<and> \<not> is_replaying (fst s)) \<or>
      entry_attempted cs (perform (OnButtonEvent interface status) s))"
| "entry_attempted (c # cs) s = entry_attempted cs (perform c s)"

definition no_trajectory :: "'a ButtonEventHandler \<times> 'a env \<Rightarrow> bool" where
  "no_trajectory s \<longleftrightarrow> \<not> is_teaching (fst s) \<and> current_trajectory_name (fst s) = []"

text \<open>Reading a decimal numeral back, to tell two trajectory names apart.\<close>

definition digit_value :: "char \<Rightarrow> nat" where
  "digit_value c = of_char c - 48"

definition undecimal :: "string \<Rightarrow> nat" where
  "undecimal s = foldl (\<lambda>a c. 10 * a + digit_value c) 0 s"

subsection \<open>Concrete callbacks, worlds and runs\<close>

text \<open>
  A controller that accepts every request, one that refuses every request, and a
  completion callback. The runs below start from the constructor with the clock at
  1700000000 and nothing invoked yet.
\<close>

definition accepting :: "'a ControllerSwitchCallback" where
  "accepting command trajectory_name w = (True, w)"

definition refusing :: "'a ControllerSwitchCallback" where
  "refusing command trajectory_name w = (False, w)"

definition led_off :: "'a ReplayCompleteCallback" where
  "led_off interface w = w"

definition power_on :: "unit env" where
  "power_on = (\<lparr>system_clock = 1700000000\<rparr>, [])"

definition teaching_state :: "unit ButtonEventHandler \<times> unit env" where
  "teaching_state =
     run [SetControllerSwitchCallback (Some accepting), OnButtonEvent ''can0'' ENTRY_TEACH]
       (ButtonEventHandler_new, power_on)"

definition replaying_state :: "unit ButtonEventHandler \<times> unit env" where
  "replaying_state =
     run [SetControllerSwitchCallback (Some accepting), OnButtonEvent ''can0'' TEACH_REPEAT]
       (ButtonEventHandler_new, power_on)"

definition one_session :: "unit call list" where
  "one_session =
     [SetControllerSwitchCallback (Some accepting),
      OnButtonEvent ''can0'' ENTRY_TEACH, OnButtonEvent ''can0'' TEACH_REPEAT,
      OnButtonEvent ''can0'' EXIT_TEACH, OnButtonEvent ''can0'' TEACH_REPEAT,
      OnButtonEvent ''can0'' ENTRY_TEACH]"

definition taught_state :: "unit ButtonEventHandler \<times> unit env" where
  "taught_state = on_button_event ''can0'' EXIT_TEACH (fst teaching_state) (snd teaching_state)"

definition wired_replaying_state :: "unit ButtonEventHandler \<times> unit env" where
  "wired_replaying_state =
     run [SetControllerSwitchCallback (Some accepting), SetReplayCompleteCallback (Some led_off),
          OnButtonEvent ''can0'' TEACH_REPEAT]
       (ButtonEventHandler_new, power_on)"

text \<open>
  An idle handler that still holds the name of an earlier recording, with a controller
  that refuses, a minute after that recording was started.
\<close>

definition idle_with_trajectory :: "unit ButtonEventHandler" where
  "idle_with_trajectory =
     \<lparr>controller_callback = Some refusing, replay_complete_callback = None,
      log_callback = None, is_teaching = False, is_replaying = False,
      current_trajectory_name = ''button_traj_1700000000'', last_interface = ''can0''\<rparr>"

definition a_minute_later :: "unit env" where
  "a_minute_later = (\<lparr>system_clock = 1700000060\<rparr>, [])"

definition refused_entry :: "unit ButtonEventHandler \<times> unit env" where
  "refused_entry = on_button_event ''can0'' ENTRY_TEACH idle_with_trajectory a_minute_later"

text \<open>The same handler, taught once, entering teaching again within the same second.\<close>

definition reentered_state :: "unit ButtonEventHandler \<times> unit env" where
  "reentered_state = on_button_event ''can0'' ENTRY_TEACH (fst taught_state) (snd taught_state)"

text \<open>
  A controller that refuses to record and agrees to replay, and a handler that asks it
  for both.
\<close>

definition replay_only :: "'a ControllerSwitchCallback" where
  "replay_only command trajectory_name w = (command = START_REPLAY, w)"

definition refused_then_replaying :: "unit ButtonEventHandler \<times> unit env" where
  "refused_then_replaying =
     run [SetControllerSwitchCallback (Some replay_only), OnButtonEvent ''can0'' ENTRY_TEACH,
          OnButtonEvent ''can0'' TEACH_REPEAT]
       (ButtonEventHandler_new, power_on)"

text \<open>A handler that has seen events, none of them an entry into teaching.\<close>

definition before_any_entry :: "unit call list" where
  "before_any_entry =
     [SetControllerSwitchCallback (Some accepting), OnButtonEvent ''can0'' EXIT_TEACH,
      OnButtonEvent ''can1'' NONE, NotifyReplayComplete ''can0'']"

definition untaught_state :: "unit ButtonEventHandler \<times> unit env" where
  "untaught_state = run before_any_entry (ButtonEventHandler_new, power_on)"

definition untaught_replay :: "unit ButtonEventHandler \<times> unit env" where
  "untaught_replay =
     on_button_event ''can0'' TEACH_REPEAT (fst untaught_state) (snd untaught_state)"

section \<open>Properties\<close>

subsection \<open>Auxiliary facts\<close>

lemma controller_requests_append [simp]:
  "controller_requests (xs @ ys) = controller_requests xs @ controller_requests ys"
  by (induction xs rule: controller_requests.induct) simp_all

lemma replay_complete_signals_append [simp]:
  "replay_complete_signals (xs @ ys) = replay_complete_signals xs @ replay_complete_signals ys"
  by (induction xs rule: replay_complete_signals.induct) simp_all

lemma controller_requests_log [simp]:
  "controller_requests (snd (log h message e)) = controller_requests (snd e)"
  by (simp add: log_def split: option.split)

lemma replay_complete_signals_log [simp]:
  "replay_complete_signals (snd (log h message e)) = replay_complete_signals (snd e)"
  by (simp add: log_def split: option.split)

lemma accepted_starts_log [simp]:
  "accepted_starts (snd (log h message e)) = accepted_starts (snd e)"
  by (simp add: accepted_starts_def)

lemma accepted_starts_append [simp]:
  "accepted_starts (xs @ ys) = accepted_starts xs @ accepted_starts ys"
  by (simp add: accepted_starts_def)

lemma accepted_starts_single [simp]:
  "accepted_starts [ControllerSwitchCall command n ok] =
     (if command = START_RECORD \<and> ok then [n] else [])"
  "accepted_starts [ReplayCompleteCall interface] = []"
  "accepted_starts [LogCall message] = []"
  by (simp_all add: accepted_starts_def)

lemma request_trace:
  "request callback command n e = (ok, e') \<Longrightarrow>
     controller_requests (snd e') = controller_requests (snd e) @ [(command, n, ok)]"
  by (auto simp: request_def Let_def split: prod.splits)

lemma ButtonStatus_distinct [simp]:
  "ENTRY_TEACH \<noteq> EXIT_TEACH" "ENTRY_TEACH \<noteq> TEACH_REPEAT" "EXIT_TEACH \<noteq> TEACH_REPEAT"
  "EXIT_TEACH \<noteq> ENTRY_TEACH" "TEACH_REPEAT \<noteq> ENTRY_TEACH" "TEACH_REPEAT \<noteq> EXIT_TEACH"
  "NONE \<noteq> ENTRY_TEACH" "NONE \<noteq> EXIT_TEACH" "NONE \<noteq> TEACH_REPEAT"
  by (simp_all add: NONE_def ENTRY_TEACH_def EXIT_TEACH_def TEACH_REPEAT_def)

text \<open>The two concrete states, computed.\<close>

lemma teaching_state_eq:
  "teaching_state =
     (\<lparr>controller_callback = Some accepting, replay_complete_callback = None,
       log_callback = None, is_teaching = True, is_replaying = False,
       current_trajectory_name = ''button_traj_1700000000'', last_interface = ''can0''\<rparr>,
      \<lparr>system_clock = 1700000000\<rparr>,
      [ControllerSwitchCall START_RECORD ''button_traj_1700000000'' True])"
  by (simp add: teaching_state_def on_button_event_def handle_entry_teach_def
      set_controller_switch_callback_def log_def request_def generate_trajectory_name_def
      to_string_def decimal.simps digit_char_def ButtonEventHandler_new_def accepting_def
      power_on_def ENTRY_TEACH_def)

lemma replaying_state_eq:
  "replaying_state =
     (\<lparr>controller_callback = Some accepting, replay_complete_callback = None,
       log_callback = None, is_teaching = False, is_replaying = True,
       current_trajectory_name = [], last_interface = ''can0''\<rparr>,
      \<lparr>system_clock = 1700000000\<rparr>,
      [ControllerSwitchCall START_REPLAY [] True])"
  by (simp add: replaying_state_def on_button_event_def handle_teach_repeat_def
      set_controller_switch_callback_def log_def request_def ButtonEventHandler_new_def
      accepting_def power_on_def ENTRY_TEACH_def EXIT_TEACH_def TEACH_REPEAT_def)

lemma taught_state_eq:
  "taught_state =
     (\<lparr>controller_callback = Some accepting, replay_complete_callback = None,
       log_callback = None, is_teaching = False, is_replaying = False,
       current_trajectory_name = ''button_traj_1700000000'', last_interface = ''can0''\<rparr>,
      \<lparr>system_clock = 1700000000\<rparr>,
      [ControllerSwitchCall START_RECORD ''button_traj_1700000000'' True,
       ControllerSwitchCall STOP_RECORD ''button_traj_1700000000'' True])"
  by (simp add: taught_state_def teaching_state_eq on_button_event_def handle_exit_teach_def
      log_def request_def accepting_def ENTRY_TEACH_def EXIT_TEACH_def)

lemma wired_replaying_state_eq:
  "wired_replaying_state =
     (\<lparr>controller_callback = Some accepting, replay_complete_callback = Some led_off,
       log_callback = None, is_teaching = False, is_replaying = True,
       current_trajectory_name = [], last_interface = ''can0''\<rparr>,
      \<lparr>system_clock = 1700000000\<rparr>,
      [ControllerSwitchCall START_REPLAY [] True])"
  by (simp add: wired_replaying_state_def on_button_event_def handle_teach_repeat_def
      set_controller_switch_callback_def set_replay_complete_callback_def log_def request_def
      ButtonEventHandler_new_def accepting_def power_on_def ENTRY_TEACH_def EXIT_TEACH_def
      TEACH_REPEAT_def)

lemma refused_entry_eq:
  "refused_entry =
     (idle_with_trajectory\<lparr>current_trajectory_name := ''button_traj_1700000060''\<rparr>,
      \<lparr>system_clock = 1700000060\<rparr>,
      [ControllerSwitchCall START_RECORD ''button_traj_1700000060'' False])"
  by (simp add: refused_entry_def idle_with_trajectory_def a_minute_later_def
      on_button_event_def handle_entry_teach_def log_def request_def refusing_def
      generate_trajectory_name_def to_string_def decimal.simps digit_char_def ENTRY_TEACH_def)

lemma notify_replay_complete_idle:
  "\<not> is_replaying h \<Longrightarrow> notify_replay_complete interface h e = (h, e)"
  by (simp add: notify_replay_complete_def)

text \<open>Each call keeps the two flags from being set together, and so does every run.\<close>

lemma flags_perform:
  assumes "\<not> (is_teaching (fst s) \<and> is_replaying (fst s))"
  shows "\<not> (is_teaching (fst (perform c s)) \<and> is_replaying (fst (perform c s)))"
proof -
  obtain h e where s: "s = (h, e)"
    by (cases s) auto
  show ?thesis
  proof (cases c)
    case (OnButtonEvent interface status)
    with s assms show ?thesis
      by (auto simp: on_button_event_def handle_entry_teach_def handle_exit_teach_def
          handle_teach_repeat_def Let_def split: option.splits prod.splits if_splits)
  next
    case (NotifyReplayComplete interface)
    with s assms show ?thesis
      by (auto simp: notify_replay_complete_def Let_def split: option.splits)
  qed (use s assms in \<open>simp_all add: set_controller_switch_callback_def
        set_replay_complete_callback_def set_log_callback_def\<close>)
qed

lemma flags_run:
  "\<not> (is_teaching (fst s) \<and> is_replaying (fst s)) \<Longrightarrow>
   \<not> (is_teaching (fst (run cs s)) \<and> is_replaying (fst (run cs s)))"
proof (induction cs arbitrary: s)
  case Nil
  then show ?case by simp
next
  case (Cons c cs)
  from Cons.prems have "\<not> (is_teaching (fst (perform c s)) \<and> is_replaying (fst (perform c s)))"
    by (rule flags_perform)
  then show ?case using Cons.IH by simp
qed

text \<open>A button event makes at most one request, and only adds to what was invoked.\<close>

lemma on_button_event_requests:
  "\<exists>rs. controller_requests (snd (snd (on_button_event interface status h e))) =
          controller_requests (snd e) @ rs \<and> length rs \<le> 1"
  by (auto simp: on_button_event_def handle_entry_teach_def handle_exit_teach_def
      handle_teach_repeat_def Let_def request_def split: option.splits prod.splits)

text \<open>The invariant of the recording id holds along every run that starts without teaching.\<close>

lemma entry_recorded_log [simp]:
  "entry_recorded (h, log h' message e) = entry_recorded (h, e)"
  by (simp add: entry_recorded_def)

lemma entry_recorded_last_interface [simp]:
  "entry_recorded (h\<lparr>last_interface := interface\<rparr>, e) = entry_recorded (h, e)"
  by (simp add: entry_recorded_def)








text \<open>
  Two trajectory names are the same only when the clock read the same second: the
  decimal numeral can be read back, and only a negative number starts with a minus sign.
\<close>

lemma digit_cases: "d < 10 \<Longrightarrow> d \<in> {0, 1, 2, 3, 4, 5, 6, 7, 8, 9::nat}"
  by auto

lemma digit_value_digit_char: "d < 10 \<Longrightarrow> digit_value (digit_char d) = d"
  using digit_cases [of d] by (auto simp: digit_value_def digit_char_def)

lemma digit_char_not_minus: "d < 10 \<Longrightarrow> digit_char d \<noteq> CHR ''-''"
  using digit_cases [of d] by (auto simp: digit_char_def)

lemma undecimal_decimal: "undecimal (decimal n) = n"
proof (induction n rule: decimal.induct)
  case (1 n)
  show ?case
  proof (cases "n < 10")
    case True
    then show ?thesis
      by (simp add: decimal.simps [of n] undecimal_def digit_value_digit_char)
  next
    case False
    with 1 have "undecimal (decimal (n div 10)) = n div 10" by simp
    with False show ?thesis
      by (simp add: decimal.simps [of n] undecimal_def digit_value_digit_char)
  qed
qed

lemma decimal_inj: "decimal m = decimal n \<Longrightarrow> m = n"
  by (metis undecimal_decimal)

lemma decimal_hd: "decimal n \<noteq> [] \<and> hd (decimal n) \<noteq> CHR ''-''"
proof (induction n rule: decimal.induct)
  case (1 n)
  show ?case
  proof (cases "n < 10")
    case True
    then show ?thesis
      by (simp add: decimal.simps [of n] digit_char_not_minus)
  next
    case False
    with 1 show ?thesis
      by (simp add: decimal.simps [of n])
  qed
qed

lemma to_string_inj:
  assumes eq: "to_string i = to_string j"
  shows "i = j"
proof -
  have neg: "hd (to_string k) = CHR ''-'' \<longleftrightarrow> k < 0" for k
    using decimal_hd [of "nat k"] by (simp add: to_string_def)
  from eq have sign: "i < 0 \<longleftrightarrow> j < 0"
    using neg [of i] neg [of j] by simp
  show "i = j"
  proof (cases "i < 0")
    case True
    with sign eq have "decimal (nat (- i)) = decimal (nat (- j))"
      by (simp add: to_string_def)
    then have "nat (- i) = nat (- j)" by (rule decimal_inj)
    with True sign show ?thesis by simp
  next
    case False
    with sign eq have "decimal (nat i) = decimal (nat j)"
      by (simp add: to_string_def)
    then have "nat i = nat j" by (rule decimal_inj)
    with False sign show ?thesis by simp
  qed
qed

text \<open>As long as no entry into teaching is attempted, no trajectory name is stored.\<close>

lemma no_trajectory_perform:
  assumes "no_trajectory s" and "\<not> entry_attempted [c] s"
  shows "no_trajectory (perform c s)"
proof -
  obtain h e where s: "s = (h, e)"
    by (cases s) auto
  show ?thesis
  proof (cases c)
    case (OnButtonEvent interface status)
    with s assms show ?thesis
      by (auto simp: no_trajectory_def on_button_event_def handle_entry_teach_def
          handle_exit_teach_def handle_teach_repeat_def Let_def request_def
          split: option.splits prod.splits)
  next
    case (NotifyReplayComplete interface)
    with s assms show ?thesis
      by (auto simp: no_trajectory_def notify_replay_complete_def Let_def split: option.splits)
  qed (use s assms in \<open>simp_all add: no_trajectory_def set_controller_switch_callback_def
        set_replay_complete_callback_def set_log_callback_def\<close>)
qed

lemma entry_attempted_Cons:
  "entry_attempted (c # cs) s \<longleftrightarrow> entry_attempted [c] s \<or> entry_attempted cs (perform c s)"
  by (cases c) simp_all

lemma no_trajectory_run:
  "no_trajectory s \<Longrightarrow> \<not> entry_attempted cs s \<Longrightarrow> no_trajectory (run cs s)"
proof (induction cs arbitrary: s)
  case Nil
  then show ?case by simp
next
  case (Cons c cs)
  from Cons.prems(2) have first: "\<not> entry_attempted [c] s"
    and rest: "\<not> entry_attempted cs (perform c s)"
    using entry_attempted_Cons [of c cs s] by simp_all
  from Cons.prems(1) first have "no_trajectory (perform c s)"
    by (rule no_trajectory_perform)
  then have "no_trajectory (run cs (perform c s))"
    using rest by (rule Cons.IH)
  then show ?case by simp
qed

text \<open>The further concrete states, computed.\<close>

lemma reentered_state_eq:
  "reentered_state =
     (\<lparr>controller_callback = Some accepting, replay_complete_callback = None,
       log_callback = None, is_teaching = True, is_replaying = False,
       current_trajectory_name = ''button_traj_1700000000'', last_interface = ''can0''\<rparr>,
      \<lparr>system_clock = 1700000000\<rparr>,
      [ControllerSwitchCall START_RECORD ''button_traj_1700000000'' True,
       ControllerSwitchCall STOP_RECORD ''button_traj_1700000000'' True,
       ControllerSwitchCall START_RECORD ''button_traj_1700000000'' True])"
  by (simp add: reentered_state_def taught_state_eq on_button_event_def handle_entry_teach_def
      log_def request_def accepting_def generate_trajectory_name_def to_string_def
      decimal.simps digit_char_def ENTRY_TEACH_def)

lemma refused_then_replaying_eq:
  "refused_then_replaying =
     (\<lparr>controller_callback = Some replay_only, replay_complete_callback = None,
       log_callback = None, is_teaching = False, is_replaying = True,
       current_trajectory_name = ''button_traj_1700000000'', last_interface = ''can0''\<rparr>,
      \<lparr>system_clock = 1700000000\<rparr>,
      [ControllerSwitchCall START_RECORD ''button_traj_1700000000'' False,
       ControllerSwitchCall START_REPLAY ''button_traj_1700000000'' True])"
  by (simp add: refused_then_replaying_def on_button_event_def handle_entry_teach_def
      handle_teach_repeat_def set_controller_switch_callback_def log_def request_def
      replay_only_def generate_trajectory_name_def to_string_def decimal.simps digit_char_def
      ButtonEventHandler_new_def power_on_def ENTRY_TEACH_def EXIT_TEACH_def TEACH_REPEAT_def)

lemma untaught_state_eq:
  "untaught_state =
     (\<lparr>controller_callback = Some accepting, replay_complete_callback = None,
       log_callback = None, is_teaching = False, is_replaying = False,
       current_trajectory_name = [], last_interface = ''can1''\<rparr>,
      \<lparr>system_clock = 1700000000\<rparr>, [])"
  by (simp add: untaught_state_def before_any_entry_def on_button_event_def
      handle_exit_teach_def notify_replay_complete_def set_controller_switch_callback_def
      log_def ButtonEventHandler_new_def power_on_def NONE_def ENTRY_TEACH_def EXIT_TEACH_def
      TEACH_REPEAT_def)

lemma untaught_replay_eq:
  "untaught_replay =
     (\<lparr>controller_callback = Some accepting, replay_complete_callback = None,
       log_callback = None, is_teaching = False, is_replaying = True,
       current_trajectory_name = [], last_interface = ''can0''\<rparr>,
      \<lparr>system_clock = 1700000000\<rparr>, [ControllerSwitchCall START_REPLAY [] True])"
  by (simp add: untaught_replay_def untaught_state_eq on_button_event_def
      handle_teach_repeat_def log_def request_def accepting_def ENTRY_TEACH_def EXIT_TEACH_def
      TEACH_REPEAT_def)

lemma before_any_entry_attempted:
  "\<not> entry_attempted before_any_entry (ButtonEventHandler_new, power_on)"
  by (simp add: before_any_entry_def on_button_event_def handle_exit_teach_def
      notify_replay_complete_def set_controller_switch_callback_def log_def
      ButtonEventHandler_new_def power_on_def NONE_def ENTRY_TEACH_def EXIT_TEACH_def
      TEACH_REPEAT_def)

subsection \<open>The two modes exclude each other\<close>

text \<open>
  C1. Start from a handler with both flags false, whatever callbacks it holds, and let
  any sequence of calls follow: button events of any status, replay-complete
  notifications, registrations, with the controller callback answering as it likes.
  Then \<open>is_teaching\<close> and \<open>is_replaying\<close> are not both true afterwards. Every prefix of
  a sequence is a sequence, so this holds between any two calls of a run.
\<close>

theorem teaching_and_replaying_exclusive:
  assumes "\<not> is_teaching h" and "\<not> is_replaying h"
  shows "\<not> (is_teaching (fst (run cs (h, e))) \<and> is_replaying (fst (run cs (h, e))))"
  using assms flags_run [of "(h, e)" cs] by simp

theorem teaching_and_replaying_exclusive_witness:
  "\<not> is_teaching (ButtonEventHandler_new :: unit ButtonEventHandler) \<and>
   \<not> is_replaying (ButtonEventHandler_new :: unit ButtonEventHandler) \<and>
   \<not> (is_teaching (fst (run one_session (ButtonEventHandler_new, power_on))) \<and>
      is_replaying (fst (run one_session (ButtonEventHandler_new, power_on))))"
  using teaching_and_replaying_exclusive [of ButtonEventHandler_new one_session power_on]
  by (simp add: ButtonEventHandler_new_def)

subsection \<open>A refused request\<close>

text \<open>
  C2. When the controller callback answers false to the request of a button event
  (\<open>START_RECORD\<close>, \<open>STOP_RECORD\<close> or \<open>START_REPLAY\<close>), that request is the only one of
  the call, and \<open>is_teaching\<close> and \<open>is_replaying\<close> are afterwards what they were before
  the call: no mode is entered or left. \<open>current_trajectory_name\<close> is what it was
  before the call for \<open>STOP_RECORD\<close> and \<open>START_REPLAY\<close>; after a refused \<open>START_RECORD\<close>
  it is the id generated for that request, which was stored before the controller was
  asked. \<open>last_interface\<close> is the interface of the event. In all three cases the handler
  is left as it was at the moment of the request.
\<close>

theorem refused_request_keeps_mode:
  assumes "on_button_event interface status h e = (h', e')"
    and "controller_requests (snd e') = controller_requests (snd e) @ rs"
    and "(command, n, False) \<in> set rs"
  shows "rs = [(command, n, False)] \<and>
         is_teaching h' = is_teaching h \<and> is_replaying h' = is_replaying h \<and>
         current_trajectory_name h' =
           (if command = START_RECORD then n else current_trajectory_name h) \<and>
         last_interface h' = interface \<and>
         h' = h\<lparr>last_interface := interface, current_trajectory_name := n\<rparr>"
  using assms
  by (auto simp: on_button_event_def handle_entry_teach_def handle_exit_teach_def
      handle_teach_repeat_def Let_def request_def
      split: if_splits option.splits prod.splits)

theorem refused_request_keeps_mode_witness:
  "controller_requests (snd (snd refused_entry)) =
     controller_requests (snd a_minute_later) @
       [(START_RECORD, ''button_traj_1700000060'', False)] \<and>
   is_teaching (fst refused_entry) = is_teaching idle_with_trajectory \<and>
   is_replaying (fst refused_entry) = is_replaying idle_with_trajectory \<and>
   current_trajectory_name (fst refused_entry) = ''button_traj_1700000060''"
proof -
  have call: "on_button_event ''can0'' ENTRY_TEACH idle_with_trajectory a_minute_later =
      (fst refused_entry, snd refused_entry)"
    by (simp add: refused_entry_def)
  have requests: "controller_requests (snd (snd refused_entry)) =
      controller_requests (snd a_minute_later) @
        [(START_RECORD, ''button_traj_1700000060'', False)]"
    by (simp add: refused_entry_eq a_minute_later_def)
  have refused: "(START_RECORD, ''button_traj_1700000060'', False) \<in>
      set [(START_RECORD, ''button_traj_1700000060'', False)]"
    by simp
  from refused_request_keeps_mode [OF call requests refused] requests
  show ?thesis by simp
qed

text \<open>
  The trajectory name does not survive a refused \<open>START_RECORD\<close>. An idle handler holds
  the name of the recording of 1700000000; a minute later an \<open>ENTRY_TEACH\<close> event
  arrives on the same interface and the controller refuses. The handler stays idle, and
  the name it holds is now the one of the recording that never started.
\<close>

theorem refused_start_record_overwrites_name:
  "\<not> is_teaching idle_with_trajectory \<and> \<not> is_replaying idle_with_trajectory \<and>
   current_trajectory_name idle_with_trajectory = ''button_traj_1700000000'' \<and>
   controller_requests (snd (snd
     (on_button_event ''can0'' ENTRY_TEACH idle_with_trajectory a_minute_later))) =
     [(START_RECORD, ''button_traj_1700000060'', False)] \<and>
   current_trajectory_name (fst
     (on_button_event ''can0'' ENTRY_TEACH idle_with_trajectory a_minute_later)) =
     ''button_traj_1700000060'' \<and>
   current_trajectory_name (fst
     (on_button_event ''can0'' ENTRY_TEACH idle_with_trajectory a_minute_later)) \<noteq>
     current_trajectory_name idle_with_trajectory"
  using refused_entry_eq
  by (simp add: refused_entry_def) (simp add: idle_with_trajectory_def)

subsection \<open>The end of a replay\<close>

text \<open>
  C3. While \<open>is_replaying\<close> is true, \<open>notify_replay_complete\<close> sets \<open>is_replaying\<close> to
  false and changes no other member, for every interface. If a replay-complete callback
  is registered it is invoked once, with that interface; if none is registered no
  completion signal goes out. The controller is not asked anything, and a further
  notification, on whatever interface, changes nothing any more.
\<close>

theorem replay_complete_signalled:
  assumes "is_replaying h"
    and "notify_replay_complete interface h e = (h', e')"
  shows "h' = h\<lparr>is_replaying := False\<rparr> \<and>
         replay_complete_signals (snd e') =
           replay_complete_signals (snd e) @
             (case replay_complete_callback h of
                Some callback \<Rightarrow> [interface]
              | None \<Rightarrow> []) \<and>
         controller_requests (snd e') = controller_requests (snd e) \<and>
         notify_replay_complete interface' h' e' = (h', e')"
  using assms
  by (auto simp: notify_replay_complete_def Let_def split: option.splits)

theorem replay_complete_signalled_witness:
  "is_replaying (fst wired_replaying_state) \<and>
   \<not> is_replaying (fst (notify_replay_complete ''can0'' (fst wired_replaying_state)
      (snd wired_replaying_state))) \<and>
   replay_complete_signals (snd (snd (notify_replay_complete ''can0''
      (fst wired_replaying_state) (snd wired_replaying_state)))) = [''can0'']"
proof -
  have replaying: "is_replaying (fst wired_replaying_state)"
    by (simp add: wired_replaying_state_eq)
  have call: "notify_replay_complete ''can0'' (fst wired_replaying_state)
      (snd wired_replaying_state) =
      (fst (notify_replay_complete ''can0'' (fst wired_replaying_state)
         (snd wired_replaying_state)),
       snd (notify_replay_complete ''can0'' (fst wired_replaying_state)
         (snd wired_replaying_state)))"
    by simp
  have registered: "replay_complete_callback (fst wired_replaying_state) = Some led_off"
    and before: "replay_complete_signals (snd (snd wired_replaying_state)) = []"
    by (simp_all add: wired_replaying_state_eq)
  from replay_complete_signalled [OF replaying call] replaying registered before
  show ?thesis by simp
qed

text \<open>
  Without a replay-complete callback the replay ends in silence: a handler with only a
  controller callback is replaying after \<open>TEACH_REPEAT\<close>; the notification clears the
  flag and no completion signal is sent.
\<close>

theorem replay_complete_without_callback:
  "is_replaying (fst replaying_state) \<and>
   \<not> is_replaying (fst (notify_replay_complete ''can0'' (fst replaying_state)
      (snd replaying_state))) \<and>
   replay_complete_signals (snd (snd (notify_replay_complete ''can0'' (fst replaying_state)
      (snd replaying_state)))) = []"
  by (simp add: replaying_state_eq notify_replay_complete_def log_def)

text \<open>
  C7. While \<open>is_replaying\<close> is false, \<open>notify_replay_complete\<close> returns the handler and
  the environment as they were, for every interface: no member changes and the list of
  invocations gains nothing, neither a completion signal nor a controller request nor a
  log line. Any number of such calls in a row, on any interfaces, does the same.
\<close>

theorem spurious_replay_complete_is_noop:
  assumes "\<not> is_replaying h"
  shows "notify_replay_complete interface h e = (h, e) \<and>
         run (map NotifyReplayComplete interfaces) (h, e) = (h, e)"
proof
  show "notify_replay_complete interface h e = (h, e)"
    using assms by (rule notify_replay_complete_idle)
  show "run (map NotifyReplayComplete interfaces) (h, e) = (h, e)"
    using assms by (induction interfaces) (simp_all add: notify_replay_complete_idle)
qed

theorem spurious_replay_complete_is_noop_witness:
  "\<not> is_replaying (fst teaching_state) \<and>
   notify_replay_complete ''can0'' (fst teaching_state) (snd teaching_state) = teaching_state \<and>
   run (map NotifyReplayComplete [''can0'', ''can1'', ''can0'']) teaching_state = teaching_state"
proof -
  have idle: "\<not> is_replaying (fst teaching_state)"
    by (simp add: teaching_state_eq)
  from idle spurious_replay_complete_is_noop
    [OF idle, of "''can0''" "snd teaching_state" "[''can0'', ''can1'', ''can0'']"]
  show ?thesis by simp
qed

subsection \<open>Rejected events\<close>

text \<open>
  C4. While \<open>is_replaying\<close> is true, an \<open>ENTRY_TEACH\<close> event changes neither
  \<open>is_teaching\<close> nor \<open>is_replaying\<close> nor \<open>current_trajectory_name\<close> nor a registered
  callback, for every interface. The one member it writes is \<open>last_interface\<close>, which
  becomes the interface of the event. No request reaches the controller callback.
\<close>

theorem entry_teach_while_replaying_rejected:
  assumes "is_replaying h"
  shows "is_teaching (fst (on_button_event interface ENTRY_TEACH h e)) = is_teaching h \<and>
         is_replaying (fst (on_button_event interface ENTRY_TEACH h e)) = is_replaying h \<and>
         current_trajectory_name (fst (on_button_event interface ENTRY_TEACH h e)) =
           current_trajectory_name h \<and>
         fst (on_button_event interface ENTRY_TEACH h e) = h\<lparr>last_interface := interface\<rparr> \<and>
         controller_requests (snd (snd (on_button_event interface ENTRY_TEACH h e))) =
           controller_requests (snd e)"
  using assms by (simp add: on_button_event_def handle_entry_teach_def Let_def)

theorem entry_teach_while_replaying_rejected_witness:
  "is_replaying (fst replaying_state) \<and>
   fst (on_button_event ''can1'' ENTRY_TEACH (fst replaying_state) (snd replaying_state)) =
     (fst replaying_state)\<lparr>last_interface := ''can1''\<rparr> \<and>
   controller_requests
     (snd (snd (on_button_event ''can1'' ENTRY_TEACH (fst replaying_state)
       (snd replaying_state)))) =
     [(START_REPLAY, [], True)]"
  using entry_teach_while_replaying_rejected
    [of "fst replaying_state" "''can1''" "snd replaying_state"]
  by (simp add: replaying_state_eq)

text \<open>
  The handler is not left untouched by the rejected event: a replay was started from
  \<open>can0\<close>, the \<open>ENTRY_TEACH\<close> event comes from \<open>can1\<close>, and \<open>last_interface\<close> follows it.
\<close>

theorem entry_teach_while_replaying_moves_last_interface:
  "is_replaying (fst replaying_state) \<and>
   last_interface (fst replaying_state) = ''can0'' \<and>
   last_interface (fst (on_button_event ''can1'' ENTRY_TEACH (fst replaying_state)
     (snd replaying_state))) = ''can1'' \<and>
   fst (on_button_event ''can1'' ENTRY_TEACH (fst replaying_state) (snd replaying_state)) \<noteq>
     fst replaying_state"
proof -
  have after: "last_interface (fst (on_button_event ''can1'' ENTRY_TEACH (fst replaying_state)
      (snd replaying_state))) = ''can1''"
    by (simp add: replaying_state_eq on_button_event_def handle_entry_teach_def Let_def)
  have before: "is_replaying (fst replaying_state)" "last_interface (fst replaying_state) = ''can0''"
    by (simp_all add: replaying_state_eq)
  from after before(2) have "fst (on_button_event ''can1'' ENTRY_TEACH (fst replaying_state)
      (snd replaying_state)) \<noteq> fst replaying_state"
    by auto
  with after before show ?thesis by simp
qed

text \<open>
  C5. While \<open>is_teaching\<close> is true, a \<open>TEACH_REPEAT\<close> event changes neither
  \<open>is_teaching\<close> nor \<open>is_replaying\<close> nor \<open>current_trajectory_name\<close> nor a registered
  callback, for every interface. The one member it writes is \<open>last_interface\<close>, which
  becomes the interface of the event. No request reaches the controller callback.
\<close>

theorem teach_repeat_while_teaching_rejected:
  assumes "is_teaching h"
  shows "is_teaching (fst (on_button_event interface TEACH_REPEAT h e)) = is_teaching h \<and>
         is_replaying (fst (on_button_event interface TEACH_REPEAT h e)) = is_replaying h \<and>
         current_trajectory_name (fst (on_button_event interface TEACH_REPEAT h e)) =
           current_trajectory_name h \<and>
         fst (on_button_event interface TEACH_REPEAT h e) = h\<lparr>last_interface := interface\<rparr> \<and>
         controller_requests (snd (snd (on_button_event interface TEACH_REPEAT h e))) =
           controller_requests (snd e)"
  using assms by (simp add: on_button_event_def handle_teach_repeat_def Let_def)

theorem teach_repeat_while_teaching_rejected_witness:
  "is_teaching (fst teaching_state) \<and>
   fst (on_button_event ''can1'' TEACH_REPEAT (fst teaching_state) (snd teaching_state)) =
     (fst teaching_state)\<lparr>last_interface := ''can1''\<rparr> \<and>
   controller_requests
     (snd (snd (on_button_event ''can1'' TEACH_REPEAT (fst teaching_state)
       (snd teaching_state)))) =
     [(START_RECORD, ''button_traj_1700000000'', True)]"
  using teach_repeat_while_teaching_rejected
    [of "fst teaching_state" "''can1''" "snd teaching_state"]
  by (simp add: teaching_state_eq)

text \<open>
  Here too the rejected event leaves its mark: teaching was entered from \<open>can0\<close>, the
  \<open>TEACH_REPEAT\<close> event comes from \<open>can1\<close>, and \<open>last_interface\<close> follows it.
\<close>

theorem teach_repeat_while_teaching_moves_last_interface:
  "is_teaching (fst teaching_state) \<and>
   last_interface (fst teaching_state) = ''can0'' \<and>
   last_interface (fst (on_button_event ''can1'' TEACH_REPEAT (fst teaching_state)
     (snd teaching_state))) = ''can1'' \<and>
   fst (on_button_event ''can1'' TEACH_REPEAT (fst teaching_state) (snd teaching_state)) \<noteq>
     fst teaching_state"
proof -
  have after: "last_interface (fst (on_button_event ''can1'' TEACH_REPEAT (fst teaching_state)
      (snd teaching_state))) = ''can1''"
    by (simp add: teaching_state_eq on_button_event_def handle_teach_repeat_def Let_def)
  have before: "is_teaching (fst teaching_state)" "last_interface (fst teaching_state) = ''can0''"
    by (simp_all add: teaching_state_eq)
  from after before(2) have "fst (on_button_event ''can1'' TEACH_REPEAT (fst teaching_state)
      (snd teaching_state)) \<noteq> fst teaching_state"
    by auto
  with after before show ?thesis by simp
qed

subsection \<open>Entering and leaving teaching\<close>

text \<open>
  C6. When an \<open>ENTRY_TEACH\<close> event is handled by an idle handler (neither flag set) and
  the controller callback answers true, the request it answered is the one request of
  the call, a \<open>START_RECORD\<close>; afterwards \<open>is_teaching\<close> is true and
  \<open>current_trajectory_name\<close> is the id that request carried. The id is not empty and
  was generated in this call: it is \<open>button_traj_\<close> followed by the seconds the clock
  showed once the two log lines before it were written. It is new as far as the clock
  is: the id generated at any other reading of the clock differs from it, and the id
  generated at the same reading is the same.
\<close>

theorem entry_teach_starts_recording:
  fixes h :: "'a ButtonEventHandler" and e :: "'a env" and interface :: string
    and w' :: "'b world_scheme"
  defines "now \<equiv> system_clock
               (fst (log (h\<lparr>last_interface := interface\<rparr>)
                       (txt_enter_teach @ interface @ '')'')
                       (log h (txt_event_received @ interface @ '', status=''
                                 @ to_string (uint ENTRY_TEACH)) e)))"
  assumes "\<not> is_teaching h" and "\<not> is_replaying h"
    and "on_button_event interface ENTRY_TEACH h e = (h', e')"
    and "controller_requests (snd e') = controller_requests (snd e) @ rs"
    and "(command, n, True) \<in> set rs"
  shows "rs = [(START_RECORD, n, True)] \<and>
         is_teaching h' \<and> current_trajectory_name h' = n \<and> n \<noteq> [] \<and>
         n = ''button_traj_'' @ to_string now \<and>
         (generate_trajectory_name w' = n \<longleftrightarrow> system_clock w' = now) \<and>
         h' = h\<lparr>last_interface := interface, current_trajectory_name := n,
                 is_teaching := True\<rparr>"
proof -
  from assms(2-6) have step: "rs = [(START_RECORD, n, True)] \<and>
         is_teaching h' \<and> current_trajectory_name h' = n \<and> n \<noteq> [] \<and>
         n = ''button_traj_'' @ to_string now \<and>
         h' = h\<lparr>last_interface := interface, current_trajectory_name := n,
                 is_teaching := True\<rparr>"
    unfolding now_def
    by (auto simp: on_button_event_def handle_entry_teach_def Let_def request_def
        generate_trajectory_name_def split: if_splits option.splits prod.splits)
  then have "generate_trajectory_name w' = n \<longleftrightarrow> system_clock w' = now"
    by (auto simp: generate_trajectory_name_def dest: to_string_inj)
  with step show ?thesis by simp
qed

theorem entry_teach_starts_recording_witness:
  "\<not> is_teaching (set_controller_switch_callback (Some accepting)
       (ButtonEventHandler_new :: unit ButtonEventHandler)) \<and>
   \<not> is_replaying (set_controller_switch_callback (Some accepting)
       (ButtonEventHandler_new :: unit ButtonEventHandler)) \<and>
   controller_requests (snd (snd teaching_state)) =
     controller_requests (snd power_on) @ [(START_RECORD, ''button_traj_1700000000'', True)] \<and>
   is_teaching (fst teaching_state) \<and>
   current_trajectory_name (fst teaching_state) = ''button_traj_1700000000'' \<and>
   generate_trajectory_name \<lparr>system_clock = 1700000001\<rparr> \<noteq> ''button_traj_1700000000'' \<and>
   generate_trajectory_name \<lparr>system_clock = 1700000000\<rparr> = ''button_traj_1700000000''"
proof -
  let ?h = "set_controller_switch_callback (Some accepting)
      (ButtonEventHandler_new :: unit ButtonEventHandler)"
  have idle: "\<not> is_teaching ?h" "\<not> is_replaying ?h"
    by (simp_all add: set_controller_switch_callback_def ButtonEventHandler_new_def)
  have call: "on_button_event ''can0'' ENTRY_TEACH ?h power_on =
      (fst teaching_state, snd teaching_state)"
    by (simp add: teaching_state_def)
  have requests: "controller_requests (snd (snd teaching_state)) =
      controller_requests (snd power_on) @ [(START_RECORD, ''button_traj_1700000000'', True)]"
    by (simp add: teaching_state_eq power_on_def)
  have accepted: "(START_RECORD, ''button_traj_1700000000'', True) \<in>
      set [(START_RECORD, ''button_traj_1700000000'', True)]"
    by simp
  have clock: "system_clock (fst (log (?h\<lparr>last_interface := ''can0''\<rparr>)
      (txt_enter_teach @ ''can0'' @ '')'')
      (log ?h (txt_event_received @ ''can0'' @ '', status='' @ to_string (uint ENTRY_TEACH))
         power_on))) = 1700000000"
    by (simp add: log_def set_controller_switch_callback_def ButtonEventHandler_new_def
        power_on_def)
  from entry_teach_starts_recording [OF idle call requests accepted,
      of "\<lparr>system_clock = 1700000001\<rparr>"]
    entry_teach_starts_recording [OF idle call requests accepted,
      of "\<lparr>system_clock = 1700000000\<rparr>"]
    idle requests clock
  show ?thesis by simp
qed

text \<open>
  The id is not new in every case. A recording is started and stopped, and teaching is
  entered again before the clock has moved on: the second recording gets the id of the
  first.
\<close>

theorem same_second_entry_repeats_id:
  "\<not> is_teaching (fst taught_state) \<and> \<not> is_replaying (fst taught_state) \<and>
   accepted_starts (snd (snd taught_state)) = [''button_traj_1700000000''] \<and>
   controller_requests (snd (snd
     (on_button_event ''can0'' ENTRY_TEACH (fst taught_state) (snd taught_state)))) =
     controller_requests (snd (snd taught_state)) @
       [(START_RECORD, ''button_traj_1700000000'', True)] \<and>
   is_teaching (fst
     (on_button_event ''can0'' ENTRY_TEACH (fst taught_state) (snd taught_state))) \<and>
   current_trajectory_name (fst
     (on_button_event ''can0'' ENTRY_TEACH (fst taught_state) (snd taught_state))) =
     ''button_traj_1700000000''"
  using reentered_state_eq
  by (simp add: reentered_state_def) (simp add: taught_state_eq accepted_starts_def)



subsection \<open>Replay before any recording\<close>

text \<open>
  C9. Take a handler that, since it was constructed, has gone through any sequence of
  calls in which no \<open>ENTRY_TEACH\<close> event reached it while it was idle, so that no
  entry into teaching was attempted, accepted or refused. If it is not replaying and a
  controller callback is registered, a \<open>TEACH_REPEAT\<close> event makes one request,
  \<open>START_REPLAY\<close> with the empty string as trajectory id. The handler is replaying
  afterwards exactly if the callback answered true, and \<open>current_trajectory_name\<close> is
  still empty either way.
\<close>

theorem teach_repeat_before_any_entry:
  assumes "run cs (ButtonEventHandler_new, e0) = (h, e)"
    and "\<not> entry_attempted cs (ButtonEventHandler_new, e0)"
    and "\<not> is_replaying h"
    and "controller_callback h = Some callback"
    and "on_button_event interface TEACH_REPEAT h e = (h', e')"
  shows "\<exists>ok. controller_requests (snd e') =
                controller_requests (snd e) @ [(START_REPLAY, [], ok)] \<and>
              is_replaying h' = ok \<and> current_trajectory_name h' = [] \<and> \<not> is_teaching h'"
proof -
  have "no_trajectory (ButtonEventHandler_new, e0)"
    by (simp add: no_trajectory_def ButtonEventHandler_new_def)
  then have "no_trajectory (run cs (ButtonEventHandler_new, e0))"
    using assms(2) by (rule no_trajectory_run)
  with assms(1) have idle: "\<not> is_teaching h" and empty: "current_trajectory_name h = []"
    by (simp_all add: no_trajectory_def)
  from idle empty assms(3-5) show ?thesis
    by (auto simp: on_button_event_def handle_teach_repeat_def Let_def request_def
        split: if_splits option.splits prod.splits)
qed

theorem teach_repeat_before_any_entry_witness:
  "\<not> entry_attempted before_any_entry (ButtonEventHandler_new, power_on) \<and>
   \<not> is_replaying (fst untaught_state) \<and>
   controller_callback (fst untaught_state) = Some accepting \<and>
   controller_requests (snd (snd untaught_replay)) = [(START_REPLAY, [], True)] \<and>
   is_replaying (fst untaught_replay) \<and>
   current_trajectory_name (fst untaught_replay) = []"
proof -
  have history: "run before_any_entry (ButtonEventHandler_new, power_on) =
      (fst untaught_state, snd untaught_state)"
    by (simp add: untaught_state_def)
  have idle: "\<not> is_replaying (fst untaught_state)"
    and registered: "controller_callback (fst untaught_state) = Some accepting"
    and before: "controller_requests (snd (snd untaught_state)) = []"
    by (simp_all add: untaught_state_eq)
  have call: "on_button_event ''can0'' TEACH_REPEAT (fst untaught_state) (snd untaught_state) =
      (fst untaught_replay, snd untaught_replay)"
    by (simp add: untaught_replay_def)
  have replaying: "is_replaying (fst untaught_replay)"
    by (simp add: untaught_replay_eq)
  from teach_repeat_before_any_entry
    [OF history before_any_entry_attempted idle registered call]
    before_any_entry_attempted idle registered before replaying
  show ?thesis by auto
qed

text \<open>
  A refused entry is enough to give the replay a name. The controller refuses to
  record, so the handler never enters teaching; the refused \<open>ENTRY_TEACH\<close> has stored
  its generated id all the same, and the \<open>TEACH_REPEAT\<close> that follows asks for the
  replay of that id, not of the empty string.
\<close>

theorem replay_after_refused_entry:
  "controller_requests (snd (snd refused_then_replaying)) =
     [(START_RECORD, ''button_traj_1700000000'', False),
      (START_REPLAY, ''button_traj_1700000000'', True)] \<and>
   accepted_starts (snd (snd refused_then_replaying)) = [] \<and>
   is_replaying (fst refused_then_replaying) \<and>
   current_trajectory_name (fst refused_then_replaying) = ''button_traj_1700000000'' \<and>
   current_trajectory_name (fst refused_then_replaying) \<noteq> []"
  by (simp add: refused_then_replaying_eq accepted_starts_def)

subsection \<open>The interface of the last event\<close>

text \<open>
  C10. After \<open>on_button_event interface status\<close> the member \<open>last_interface\<close> is
  \<open>interface\<close>, for every status byte (the three named events, \<open>NONE\<close> and the 252
  bytes without a name), in every state of the handler, whether the event is acted on,
  rejected or ignored.
\<close>

theorem on_button_event_sets_last_interface:
  "last_interface (fst (on_button_event interface status h e)) = interface"
  by (simp add: on_button_event_def handle_entry_teach_def handle_exit_teach_def
      handle_teach_repeat_def Let_def split: option.split prod.split)

end
